theory Spec2Isabelle
  imports Complex_Main "HOL-Library.Word"
begin

section \<open>The ADAM-6000 driver (adam6xxx/__init__.py) over an abstract Modbus client\<close>

text \<open>
  The driver is a Python class whose methods talk to a \<open>pymodbus\<close> client held in
  \<open>self._client\<close>. The client is an external collaborator: it is a parameter of the
  model (a record of functions over a client state of any type \<open>'c\<close>). Every method is a
  function from the driver state to a result and the new driver state; a Python
  exception is the \<open>Inl\<close> branch of the result. The driver state also keeps the history
  of the calls made to the client and to \<open>time.sleep\<close>, in the order they were made,
  so that the ordering of the effects can be stated. A duration is the real number that
  the float denotes (NaN and the infinities are not durations); \<open>assert\<close> statements are executed (no \<open>-O\<close>).
\<close>

subsection \<open>Python values, exceptions and built-ins\<close>

datatype error =
    IndexError
  | AssertionError
  | ValueError
  | TypeError
  | ZeroDivisionError
  | OverflowError
  | ConnectionException

text \<open>The response objects of the client: the code reads \<open>.bits\<close> and \<open>.registers\<close>.
  A register is an unsigned 16-bit value.\<close>

datatype read_bits_response = ReadBitsResponse (bits: "bool list")

datatype read_registers_response = ReadRegistersResponse (registers: "16 word list")

text \<open>The Python values that the methods with a slip in their last expression handle.\<close>

datatype pyval =
    PyBool bool
  | PyInt int
  | PyList "16 word list"
  | PyBitsResponse read_bits_response

text \<open>\<open>xs[i]\<close> on a Python list: a negative index counts from the end, and an index
  outside \<open>-len(xs) <= i < len(xs)\<close> raises IndexError.\<close>

definition py_index :: "'a list \<Rightarrow> int \<Rightarrow> error + 'a" where
  "py_index xs i =
     (if 0 \<le> i \<and> i < int (length xs) then Inr (xs ! nat i)
      else if i < 0 \<and> - int (length xs) \<le> i then Inr (xs ! nat (int (length xs) + i))
      else Inl IndexError)"

text \<open>\<open>low, high = xs\<close>: unpacking a list into two names raises ValueError unless the
  list has exactly two elements.\<close>

fun unpack2 :: "'a list \<Rightarrow> error + ('a \<times> 'a)" where
  "unpack2 [a, b] = Inr (a, b)"
| "unpack2 _ = Inl ValueError"

text \<open>\<open>x / d\<close> with a float \<open>d\<close>: defined on numbers (a bool is a number), a TypeError
  on a list or on a response object. The float is read as the real number it denotes.\<close>

fun py_truediv :: "pyval \<Rightarrow> real \<Rightarrow> error + real" where
  "py_truediv (PyInt n) d = (if d = 0 then Inl ZeroDivisionError else Inr (real_of_int n / d))"
| "py_truediv (PyBool b) d =
     (if d = 0 then Inl ZeroDivisionError else Inr ((if b then 1 else 0) / d))"
| "py_truediv (PyList xs) d = Inl TypeError"
| "py_truediv (PyBitsResponse r) d = Inl TypeError"

text \<open>\<open>hex(n)\<close>: \<open>0x\<close> and the lowercase hexadecimal digits of \<open>n\<close>, without leading
  zeros, after a minus sign when \<open>n\<close> is negative.\<close>

definition hex_digit :: "nat \<Rightarrow> char" where
  "hex_digit d = ''0123456789abcdef'' ! d"

function hex_digits :: "nat \<Rightarrow> string" where
  "hex_digits n =
     (if n < 16 then [hex_digit n] else hex_digits (n div 16) @ [hex_digit (n mod 16)])"
  by pat_completeness auto
termination
  by (relation "measure (\<lambda>n. n)") auto

definition py_hex :: "int \<Rightarrow> string" where
  "py_hex n = (if n < 0 then ''-0x'' @ hex_digits (nat (- n)) else ''0x'' @ hex_digits (nat n))"

text \<open>The value of a string of hexadecimal digits, to state what \<open>hex\<close> renders.\<close>

definition digit_value :: "char \<Rightarrow> nat" where
  "digit_value c = length (takeWhile (\<lambda>d. d \<noteq> c) ''0123456789abcdef'')"

definition hex_value :: "string \<Rightarrow> nat" where
  "hex_value s = foldl (\<lambda>acc c. 16 * acc + digit_value c) 0 s"

definition is_lower_hex :: "string \<Rightarrow> bool" where
  "is_lower_hex s = (s \<noteq> [] \<and> list_all (\<lambda>c. c \<in> set ''0123456789abcdef'') s)"

subsection \<open>The client and the calls made to it\<close>

text \<open>\<open>class Edges(enum.IntEnum)\<close>: \<open>enum.auto()\<close> numbers the members from 1. A caller
  can pass any integer as a polarity; \<open>polarity in Edges\<close> holds for the values of the
  members (Python 3.12; earlier versions raise TypeError on a non-member instead of
  answering False, at the same place).\<close>

definition RISING :: int where
  "RISING = 1"

definition FALLING :: int where
  "FALLING = 2"

definition Edges :: "int set" where
  "Edges = {RISING, FALLING}"

datatype call =
    Connect
  | WriteCoil int bool
  | ReadCoils int
  | ReadDiscreteInputs int
  | ReadInputRegisters int int
  | Sleep real

record 'c transport =
  tp_connect :: "'c \<Rightarrow> (error + bool) \<times> 'c"
  tp_write_coil :: "int \<Rightarrow> bool \<Rightarrow> 'c \<Rightarrow> (error + unit) \<times> 'c"
  tp_read_coils :: "int \<Rightarrow> 'c \<Rightarrow> (error + read_bits_response) \<times> 'c"
  tp_read_discrete_inputs :: "int \<Rightarrow> 'c \<Rightarrow> (error + read_bits_response) \<times> 'c"
  tp_read_input_registers :: "int \<Rightarrow> int \<Rightarrow> 'c \<Rightarrow> (error + read_registers_response) \<times> 'c"

subsection \<open>The driver state\<close>

record 'c adam =
  ip :: string
  name :: string
  connected :: bool
  digital_outputs :: "int list"
  digital_inputs :: "int list"
  analog_outputs :: "int list"
  counter_registers :: "int list"
  pulse_low_widths :: "int list"
  pulse_high_widths :: "int list"
  absolute_pulse_count :: "int list"
  incremental_pulse_count :: "int list"
  output_diagnostics :: "int option"  \<comment> \<open>declared in the base class, set in ADAM6052 only\<close>
  module_name_register :: int  \<comment> \<open>the class attribute module_name\<close>
  gcl_flags :: int
  gcl_counter_registers :: "int list"
  clear_gcl_counters :: "int list"
  client :: 'c
  calls :: "call list"

text \<open>The class attributes of the base class, for a client in state \<open>c\<close>
  (\<open>__init__\<close> with \<open>connect=False\<close>).\<close>

definition ADAM6XXX :: "string \<Rightarrow> 'c \<Rightarrow> 'c adam" where
  "ADAM6XXX addr c =
     \<lparr> ip = addr, name = '''', connected = False,
       digital_outputs = [], digital_inputs = [], analog_outputs = [],
       counter_registers = [], pulse_low_widths = [], pulse_high_widths = [],
       absolute_pulse_count = [], incremental_pulse_count = [],
       output_diagnostics = None,
       module_name_register = 210, gcl_flags = 304,
       gcl_counter_registers = [310, 312, 314, 316, 318, 320, 322, 324],
       clear_gcl_counters = [300, 301, 302, 303, 304, 305, 306, 307],
       client = c, calls = [] \<rparr>"

definition ADAM6052 :: "string \<Rightarrow> 'c \<Rightarrow> 'c adam" where
  "ADAM6052 addr c =
     (ADAM6XXX addr c)
     \<lparr> digital_inputs := [0, 1, 2, 3, 4, 5, 6, 7],
       digital_outputs := [16, 17, 18, 19, 20, 21, 22, 23],
       counter_registers := [0, 2, 4, 6, 8, 10, 12, 14],
       pulse_low_widths := [16, 18, 20, 22, 24, 26, 28, 30],
       pulse_high_widths := [32, 34, 36, 38, 40, 42, 44, 46],
       absolute_pulse_count := [48, 50, 52, 54, 56, 58, 60, 62],
       incremental_pulse_count := [64, 66, 68, 70, 72, 74, 76, 78],
       output_diagnostics := Some 306 \<rparr>"

definition ADAM6060 :: "string \<Rightarrow> 'c \<Rightarrow> 'c adam" where
  "ADAM6060 addr c =
     (ADAM6XXX addr c)
     \<lparr> digital_inputs := [0, 1, 2, 3, 4, 5],
       digital_outputs := [16, 17, 18, 19, 20, 21],
       counter_registers := [0, 2, 4, 6, 8, 10],
       pulse_low_widths := [12, 14, 16, 18, 20, 22],
       pulse_high_widths := [24, 26, 28, 30, 32, 34],
       absolute_pulse_count := [36, 38, 40, 42, 44, 46],
       incremental_pulse_count := [48, 50, 52, 54, 56, 58] \<rparr>"

subsection \<open>Sequencing with exceptions\<close>

text \<open>A method body is a sequence of steps; the first step that raises ends it, with
  the state that step left.\<close>

definition ret :: "'a \<Rightarrow> 's \<Rightarrow> (error + 'a) \<times> 's" where
  "ret x s = (Inr x, s)"

definition raise :: "error \<Rightarrow> 's \<Rightarrow> (error + 'a) \<times> 's" where
  "raise e s = (Inl e, s)"

definition then_do ::
  "('s \<Rightarrow> (error + 'a) \<times> 's) \<Rightarrow> ('a \<Rightarrow> 's \<Rightarrow> (error + 'b) \<times> 's) \<Rightarrow> 's \<Rightarrow> (error + 'b) \<times> 's" where
  "then_do m f s = (case m s of (Inl e, s') \<Rightarrow> (Inl e, s') | (Inr x, s') \<Rightarrow> f x s')"

text \<open>An expression that reads the state and may raise, such as \<open>self.table[index]\<close>.\<close>

definition expr :: "('s \<Rightarrow> error + 'a) \<Rightarrow> 's \<Rightarrow> (error + 'a) \<times> 's" where
  "expr f s = (f s, s)"

text \<open>A call of a client method: the call is recorded, the client answers and moves to
  its next state.\<close>

definition client_call ::
  "call \<Rightarrow> ('c \<Rightarrow> (error + 'a) \<times> 'c) \<Rightarrow> 'c adam \<Rightarrow> (error + 'a) \<times> 'c adam" where
  "client_call ev f s =
     (case f (client s) of (r, c') \<Rightarrow> (r, s\<lparr>client := c', calls := calls s @ [ev]\<rparr>))"

text \<open>\<open>time.sleep(d)\<close> (CPython): the length is turned into a whole number of
  nanoseconds, rounded away from zero; it raises OverflowError when that number does not
  fit a signed 64-bit integer, ValueError when it is negative, and otherwise blocks and
  returns. \<open>time_sleep d\<close> is the exception raised, if any; the product is taken exactly.\<close>

definition time_sleep :: "real \<Rightarrow> error option" where
  "time_sleep d =
     (let ns = (if 0 \<le> d then \<lceil>d * 10 ^ 9\<rceil> else \<lfloor>d * 10 ^ 9\<rfloor>)
      in if ns < - (2 ^ 63) \<or> 2 ^ 63 \<le> ns then Some OverflowError
         else if ns < 0 then Some ValueError
         else None)"

definition sleep :: "real \<Rightarrow> 'c adam \<Rightarrow> (error + unit) \<times> 'c adam" where
  "sleep d s =
     (case time_sleep d of
        Some e \<Rightarrow> (Inl e, s)
      | None \<Rightarrow> (Inr (), s\<lparr>calls := calls s @ [Sleep d]\<rparr>))"

subsection \<open>The methods of the driver\<close>

definition get_digital_output :: "'c transport \<Rightarrow> int \<Rightarrow> 'c adam \<Rightarrow> (error + bool) \<times> 'c adam" where
  "get_digital_output T index =
     then_do (expr (\<lambda>s. py_index (digital_outputs s) index)) (\<lambda>address.
     then_do (client_call (ReadCoils address) (tp_read_coils T address)) (\<lambda>response.
     expr (\<lambda>s. py_index (bits response) 0)))"

definition set_digital_output ::
  "'c transport \<Rightarrow> int \<Rightarrow> bool \<Rightarrow> bool \<Rightarrow> 'c adam \<Rightarrow> (error + unit) \<times> 'c adam" where
  "set_digital_output T index state verify =
     then_do (expr (\<lambda>s. py_index (digital_outputs s) index)) (\<lambda>address.
     then_do (client_call (WriteCoil address state) (tp_write_coil T address state)) (\<lambda>_.
     if verify then
       then_do (get_digital_output T index) (\<lambda>coil_state.
       if coil_state = state then ret () else raise AssertionError)
     else ret ()))"

text \<open>The method returns what \<open>read_discrete_inputs\<close> returns, the response object.\<close>

definition get_digital_input :: "'c transport \<Rightarrow> int \<Rightarrow> 'c adam \<Rightarrow> (error + pyval) \<times> 'c adam" where
  "get_digital_input T index =
     then_do (expr (\<lambda>s. py_index (digital_inputs s) index)) (\<lambda>address.
     then_do (client_call (ReadDiscreteInputs address) (tp_read_discrete_inputs T address)) (\<lambda>response.
     ret (PyBitsResponse response)))"

definition pulse_digital_output ::
  "'c transport \<Rightarrow> int \<Rightarrow> int \<Rightarrow> bool \<Rightarrow> real \<Rightarrow> 'c adam \<Rightarrow> (error + unit) \<times> 'c adam" where
  "pulse_digital_output T index polarity verify duration =
     (if polarity \<notin> Edges then raise AssertionError
      else if polarity = RISING then
        then_do (set_digital_output T index False verify) (\<lambda>_.
        then_do (set_digital_output T index True verify) (\<lambda>_.
        then_do (sleep duration) (\<lambda>_.
        set_digital_output T index False verify)))
      else if polarity = FALLING then
        then_do (set_digital_output T index True verify) (\<lambda>_.
        then_do (set_digital_output T index False verify) (\<lambda>_.
        then_do (sleep duration) (\<lambda>_.
        set_digital_output T index True verify)))
      else ret ())"

definition get_module_name :: "'c transport \<Rightarrow> 'c adam \<Rightarrow> (error + string) \<times> 'c adam" where
  "get_module_name T =
     then_do (expr (\<lambda>s. Inr (module_name_register s))) (\<lambda>address.
     then_do (client_call (ReadInputRegisters address 2) (tp_read_input_registers T address 2)) (\<lambda>response.
     then_do (expr (\<lambda>s. unpack2 (registers response))) (\<lambda>(low, high) s.
       let s1 = s\<lparr>name := ''''\<rparr>;
           s2 = (if low \<noteq> 0 then s1\<lparr>name := name s1 @ drop 2 (py_hex (uint low))\<rparr> else s1);
           s3 = (if high \<noteq> 0 then s2\<lparr>name := name s2 @ drop 2 (py_hex (uint high))\<rparr> else s2)
       in (Inr (name s3), s3))))"

definition get_counter :: "'c transport \<Rightarrow> int \<Rightarrow> 'c adam \<Rightarrow> (error + int) \<times> 'c adam" where
  "get_counter T index =
     then_do (expr (\<lambda>s. py_index (counter_registers s) index)) (\<lambda>address.
     then_do (client_call (ReadInputRegisters address 2) (tp_read_input_registers T address 2)) (\<lambda>response.
     then_do (expr (\<lambda>s. unpack2 (registers response))) (\<lambda>(low, high).
     ret (uint high * 65536 + uint low))))"

text \<open>\<open>low\<close> is bound to the whole list \<open>.registers\<close> and then divided by \<open>10.0\<close>.\<close>

definition get_frequency :: "'c transport \<Rightarrow> int \<Rightarrow> 'c adam \<Rightarrow> (error + real) \<times> 'c adam" where
  "get_frequency T index =
     then_do (expr (\<lambda>s. py_index (counter_registers s) index)) (\<lambda>address.
     then_do (client_call (ReadInputRegisters address 1) (tp_read_input_registers T address 1)) (\<lambda>response.
     expr (\<lambda>s. py_truediv (PyList (registers response)) 10)))"

definition connect :: "'c transport \<Rightarrow> 'c adam \<Rightarrow> (error + bool) \<times> 'c adam" where
  "connect T =
     then_do (client_call Connect (tp_connect T)) (\<lambda>outcome.
     then_do (\<lambda>s. (Inr (), s\<lparr>connected := outcome\<rparr>)) (\<lambda>_.
     then_do (get_module_name T) (\<lambda>_.
     expr (\<lambda>s. Inr (connected s)))))"

subsection \<open>A simulated module\<close>

text \<open>
  A client that stands for the external library in the concrete runs below: a module with
  coils, discrete inputs and input registers. When the module is not reachable,
  \<open>connect\<close> answers False and every request raises ConnectionException. A module whose
  outputs are stuck acknowledges a coil write and keeps the coil as it was. A bit
  response is padded to a whole byte, as the library does.
\<close>

record device =
  reachable :: bool
  stuck :: bool
  coils :: "int \<Rightarrow> bool"
  inputs :: "int \<Rightarrow> bool"
  input_registers :: "int \<Rightarrow> 16 word"

definition request :: "(device \<Rightarrow> 'a \<times> device) \<Rightarrow> device \<Rightarrow> (error + 'a) \<times> device" where
  "request f d = (if reachable d then (case f d of (x, d') \<Rightarrow> (Inr x, d')) else (Inl ConnectionException, d))"

definition sim :: "device transport" where
  "sim =
     \<lparr> tp_connect = (\<lambda>d. (Inr (reachable d), d)),
       tp_write_coil = (\<lambda>a v. request (\<lambda>d. ((), if stuck d then d else d\<lparr>coils := (coils d)(a := v)\<rparr>))),
       tp_read_coils = (\<lambda>a. request (\<lambda>d. (ReadBitsResponse (coils d a # replicate 7 False), d))),
       tp_read_discrete_inputs = (\<lambda>a. request (\<lambda>d. (ReadBitsResponse (inputs d a # replicate 7 False), d))),
       tp_read_input_registers =
         (\<lambda>a n. request (\<lambda>d. (ReadRegistersResponse (map (\<lambda>k. input_registers d (a + int k)) [0..<nat n]), d))) \<rparr>"

text \<open>A reachable module with every coil and input LOW; its registers are given.\<close>

definition bench :: "(int \<Rightarrow> 16 word) \<Rightarrow> device" where
  "bench regs =
     \<lparr> reachable = True, stuck = False, coils = (\<lambda>_. False), inputs = (\<lambda>_. False),
       input_registers = regs \<rparr>"

text \<open>An ADAM-6052 driver object on such a module, not yet connected.\<close>

definition module_6052 :: "(int \<Rightarrow> 16 word) \<Rightarrow> device adam" where
  "module_6052 regs = ADAM6052 ''10.0.0.1'' (bench regs)"

section \<open>Basic facts\<close>

declare hex_digits.simps [simp del]

lemmas sim_simps = sim_def request_def bench_def module_6052_def

lemmas model_simps = ADAM6052_def ADAM6060_def ADAM6XXX_def

lemmas step_simps = then_do_def expr_def client_call_def ret_def raise_def sleep_def

lemma then_do_Inl: "m s = (Inl e, s') \<Longrightarrow> then_do m f s = (Inl e, s')"
  by (simp add: then_do_def)

lemma then_do_Inr: "m s = (Inr x, s') \<Longrightarrow> then_do m f s = f x s'"
  by (simp add: then_do_def)

lemma py_index_valid:
  "0 \<le> i \<Longrightarrow> i < int (length xs) \<Longrightarrow> py_index xs i = Inr (xs ! nat i)"
  by (simp add: py_index_def)

lemma py_index_bits: "py_index (b # bs) 0 = Inr b"
  by (simp add: py_index_def)

lemma pair_of_fst: "fst p = x \<Longrightarrow> p = (x, snd p)"
  by (cases p) simp

lemma below_16_cases:
  assumes "d < (16::nat)"
  shows "d \<in> {0, 1, 2, 3, 4, 5, 6, 7, 8, 9, 10, 11, 12, 13, 14, 15}"
  using assms by simp arith

lemma digit_value_hex_digit: "d < 16 \<Longrightarrow> digit_value (hex_digit d) = d"
  using below_16_cases [of d] by (auto simp: digit_value_def hex_digit_def)

lemma hex_digit_lower: "d < 16 \<Longrightarrow> hex_digit d \<in> set ''0123456789abcdef''"
  using below_16_cases [of d] by (auto simp: hex_digit_def)

lemma hex_value_snoc: "hex_value (xs @ [c]) = 16 * hex_value xs + digit_value c"
  by (simp add: hex_value_def)

lemma hex_value_hex_digits: "hex_value (hex_digits n) = n"
proof (induction n rule: hex_digits.induct)
  case (1 n)
  show ?case
  proof (cases "n < 16")
    case True
    then show ?thesis
      using hex_value_snoc [of "[]" "hex_digit n"]
      by (simp add: hex_digits.simps [of n] digit_value_hex_digit hex_value_def)
  next
    case False
    then have "hex_value (hex_digits (n div 16)) = n div 16"
      using "1.IH" by simp
    with False show ?thesis
      by (simp add: hex_digits.simps [of n] hex_value_snoc digit_value_hex_digit)
  qed
qed

lemma is_lower_hex_hex_digits: "is_lower_hex (hex_digits n)"
proof (induction n rule: hex_digits.induct)
  case (1 n)
  show ?case
  proof (cases "n < 16")
    case True
    then show ?thesis
      using hex_digit_lower [of n]
      by (simp add: hex_digits.simps [of n] is_lower_hex_def)
  next
    case False
    then have "is_lower_hex (hex_digits (n div 16))"
      using "1.IH" by simp
    with False show ?thesis
      using hex_digit_lower [of "n mod 16"]
      by (simp add: hex_digits.simps [of n] is_lower_hex_def)
  qed
qed

lemma hex_of_register: "drop 2 (py_hex (uint (w :: 16 word))) = hex_digits (unat w)"
  by (simp add: py_hex_def)

lemma hex_digits_examples:
  "hex_digits 65 = ''41''" "hex_digits 66 = ''42''" "hex_digits 90 = ''5a''"
  by (simp_all add: hex_digits.simps [of 65] hex_digits.simps [of 66] hex_digits.simps [of 90]
      hex_digits.simps [of 4] hex_digits.simps [of 5] hex_digit_def)

lemma set_digital_output_verified:
  assumes "py_index (digital_outputs s) index = Inr a"
    and "tp_write_coil T a state (client s) = (Inr (), c1)"
    and "tp_read_coils T a c1 = (Inr (ReadBitsResponse (b # bs)), c2)"
  shows "set_digital_output T index state True s
           = ((if b = state then Inr () else Inl AssertionError),
              s\<lparr>client := c2, calls := calls s @ [WriteCoil a state, ReadCoils a]\<rparr>)"
  using assms
  by (simp add: set_digital_output_def get_digital_output_def step_simps py_index_bits)

lemma pulse_unfold:
  assumes "(polarity = RISING \<and> first = False) \<or> (polarity = FALLING \<and> first = True)"
  shows "pulse_digital_output T index polarity verify duration =
        then_do (set_digital_output T index first verify) (\<lambda>_.
        then_do (set_digital_output T index (\<not> first) verify) (\<lambda>_.
        then_do (sleep duration) (\<lambda>_.
        set_digital_output T index first verify)))"
  using assms by (auto simp add: pulse_digital_output_def Edges_def RISING_def FALLING_def)

lemma time_sleep_accepts:
  assumes "0 \<le> d" and "d \<le> 9223372036"
  shows "time_sleep d = None"
proof -
  have "d * 10 ^ 9 \<le> 9223372036000000000"
    using assms(2) by simp
  then have "\<lceil>d * 10 ^ 9\<rceil> \<le> 9223372036000000000"
    by (simp add: ceiling_le_iff)
  moreover have "0 \<le> \<lceil>d * 10 ^ 9\<rceil>"
    using assms(1) by (simp add: ceiling_le_iff le_ceiling_iff)
  ultimately show ?thesis
    using assms(1) by (simp add: time_sleep_def Let_def)
qed

lemma time_sleep_negative:
  assumes "d < 0"
  shows "time_sleep d = Some ValueError \<or> time_sleep d = Some OverflowError"
proof -
  have "\<lfloor>d * 10 ^ 9\<rfloor> < 0"
    using assms by (simp add: floor_less_iff)
  then show ?thesis
    using assms by (simp add: time_sleep_def Let_def)
qed

lemma time_sleep_negative_range:
  assumes "- 9223372036 \<le> d" and "d < 0"
  shows "time_sleep d = Some ValueError"
proof -
  have "- 9223372036000000000 \<le> d * 10 ^ 9"
    using assms(1) by simp
  then have "- 9223372036000000000 \<le> \<lfloor>d * 10 ^ 9\<rfloor>"
    by (simp add: le_floor_iff)
  moreover have "\<lfloor>d * 10 ^ 9\<rfloor> < 0"
    using assms(2) by (simp add: floor_less_iff)
  ultimately show ?thesis
    using assms(2) by (simp add: time_sleep_def Let_def)
qed

lemma sleep_returns:
  "time_sleep d = None \<Longrightarrow> sleep d s = (Inr (), s\<lparr>calls := calls s @ [Sleep d]\<rparr>)"
  by (simp add: sleep_def)

lemma sleep_raises: "time_sleep d = Some e \<Longrightarrow> sleep d s = (Inl e, s)"
  by (simp add: sleep_def)




lemmas run_simps = pulse_digital_output_def set_digital_output_def get_digital_output_def
  step_simps time_sleep_def py_index_def model_simps sim_simps Edges_def RISING_def FALLING_def

lemma py_index_out_of_range:
  "int (length xs) \<le> i \<or> i < - int (length xs) \<Longrightarrow> py_index xs i = Inl IndexError"
  by (auto simp add: py_index_def)

lemma py_index_negative:
  "- int (length xs) \<le> i \<Longrightarrow> i < 0 \<Longrightarrow> py_index xs i = py_index xs (int (length xs) + i)"
  by (auto simp add: py_index_def)

lemma py_index_in_table: "py_index xs i = Inr a \<Longrightarrow> a \<in> set xs"
  by (auto simp add: py_index_def split: if_splits)

lemma get_digital_output_same_entry:
  assumes "py_index (digital_outputs s) i = py_index (digital_outputs s) j"
  shows "get_digital_output T i s = get_digital_output T j s"
  unfolding get_digital_output_def then_do_def expr_def
  by (simp only: assms)

lemma set_digital_output_table:
  "digital_outputs (snd (set_digital_output T i x v s)) = digital_outputs s"
  by (simp add: set_digital_output_def get_digital_output_def step_simps
      split: prod.splits sum.splits)

lemma set_digital_output_same_entry:
  assumes "py_index (digital_outputs s) i = py_index (digital_outputs s) j"
  shows "set_digital_output T i x v s = set_digital_output T j x v s"
proof (cases "py_index (digital_outputs s) j")
  case (Inl e)
  then show ?thesis
    using assms by (simp add: set_digital_output_def then_do_def expr_def)
next
  case (Inr a)
  obtain r c where w: "tp_write_coil T a x (client s) = (r, c)"
    by (cases "tp_write_coil T a x (client s)")
  let ?s1 = "s\<lparr>client := c, calls := calls s @ [WriteCoil a x]\<rparr>"
  have "py_index (digital_outputs ?s1) i = py_index (digital_outputs ?s1) j"
    using assms by simp
  then have same_read: "get_digital_output T i ?s1 = get_digital_output T j ?s1"
    by (rule get_digital_output_same_entry)
  show ?thesis
    using assms Inr w same_read
    by (simp add: set_digital_output_def then_do_def expr_def client_call_def split: sum.splits)
qed

lemma then_do_same:
  assumes "m s = m' s" and "\<And>x s'. m s = (Inr x, s') \<Longrightarrow> f x s' = f' x s'"
  shows "then_do m f s = then_do m' f' s"
  using assms by (auto simp add: then_do_def split: prod.splits sum.splits)

lemma set_digital_output_keeps_table:
  assumes "set_digital_output T i x v t = (r, t')"
  shows "digital_outputs t' = digital_outputs t"
  using set_digital_output_table [of T i x v t] assms by simp

lemma sleep_keeps_table:
  assumes "sleep d t = (r, t')"
  shows "digital_outputs t' = digital_outputs t"
  using assms by (auto simp add: sleep_def split: option.splits)

lemma pulse_same_entry:
  assumes "py_index (digital_outputs s) i = py_index (digital_outputs s) j"
  shows "pulse_digital_output T i p v d s = pulse_digital_output T j p v d s"
proof -
  have step: "set_digital_output T i x v t = set_digital_output T j x v t"
    if "digital_outputs t = digital_outputs s" for x t
  proof (rule set_digital_output_same_entry)
    show "py_index (digital_outputs t) i = py_index (digital_outputs t) j"
      by (simp only: that assms)
  qed
  have seq: "then_do (set_digital_output T i x v) (\<lambda>_.
               then_do (set_digital_output T i y v) (\<lambda>_.
               then_do (sleep d) (\<lambda>_. set_digital_output T i x v))) s
           = then_do (set_digital_output T j x v) (\<lambda>_.
               then_do (set_digital_output T j y v) (\<lambda>_.
               then_do (sleep d) (\<lambda>_. set_digital_output T j x v))) s" for x y
  proof (rule then_do_same)
    show "set_digital_output T i x v s = set_digital_output T j x v s"
      by (rule step) (rule refl)
  next
    fix u s1
    assume one: "set_digital_output T i x v s = (Inr u, s1)"
    have k1: "digital_outputs s1 = digital_outputs s"
      by (rule set_digital_output_keeps_table [OF one])
    show "then_do (set_digital_output T i y v) (\<lambda>_. then_do (sleep d) (\<lambda>_. set_digital_output T i x v)) s1
        = then_do (set_digital_output T j y v) (\<lambda>_. then_do (sleep d) (\<lambda>_. set_digital_output T j x v)) s1"
    proof (rule then_do_same)
      show "set_digital_output T i y v s1 = set_digital_output T j y v s1"
        by (rule step [OF k1])
    next
      fix u2 s2
      assume two: "set_digital_output T i y v s1 = (Inr u2, s2)"
      have k2: "digital_outputs s2 = digital_outputs s"
        using set_digital_output_keeps_table [OF two] k1 by (rule trans)
      show "then_do (sleep d) (\<lambda>_. set_digital_output T i x v) s2
          = then_do (sleep d) (\<lambda>_. set_digital_output T j x v) s2"
      proof (rule then_do_same)
        show "sleep d s2 = sleep d s2" by (rule refl)
      next
        fix u3 s3
        assume three: "sleep d s2 = (Inr u3, s3)"
        have "digital_outputs s3 = digital_outputs s"
          using sleep_keeps_table [OF three] k2 by (rule trans)
        then show "set_digital_output T i x v s3 = set_digital_output T j x v s3"
          by (rule step)
      qed
    qed
  qed
  show ?thesis
  proof (cases "p \<in> Edges")
    case False
    then show ?thesis
      by (simp add: pulse_digital_output_def)
  next
    case True
    show ?thesis
    proof (cases "p = RISING")
      case rising: True
      show ?thesis
        using True rising seq [of False True] by (simp add: pulse_digital_output_def)
    next
      case False
      then have "p = FALLING"
        using True by (simp add: Edges_def)
      with True False show ?thesis
        using seq [of True False] by (simp add: pulse_digital_output_def)
    qed
  qed
qed

lemma get_digital_input_same_entry:
  assumes "py_index (digital_inputs s) i = py_index (digital_inputs s) j"
  shows "get_digital_input T i s = get_digital_input T j s"
  unfolding get_digital_input_def then_do_def expr_def
  by (simp only: assms)

lemma get_counter_same_entry:
  assumes "py_index (counter_registers s) i = py_index (counter_registers s) j"
  shows "get_counter T i s = get_counter T j s"
  unfolding get_counter_def then_do_def expr_def
  by (simp only: assms)

lemma get_frequency_same_entry:
  assumes "py_index (counter_registers s) i = py_index (counter_registers s) j"
  shows "get_frequency T i s = get_frequency T j s"
  unfolding get_frequency_def then_do_def expr_def
  by (simp only: assms)

lemma outputs_outside:
  assumes "int (length (digital_outputs s)) \<le> index \<or> index < - int (length (digital_outputs s))"
  shows "set_digital_output T index state verify s = (Inl IndexError, s)"
    and "get_digital_output T index s = (Inl IndexError, s)"
    and "polarity \<in> Edges \<Longrightarrow>
         pulse_digital_output T index polarity verify duration s = (Inl IndexError, s)"
proof -
  have idx: "py_index (digital_outputs s) index = Inl IndexError"
    using assms by (rule py_index_out_of_range)
  show one: "set_digital_output T index state verify s = (Inl IndexError, s)" for state
    by (simp add: set_digital_output_def then_do_def expr_def idx)
  show "get_digital_output T index s = (Inl IndexError, s)"
    by (simp add: get_digital_output_def then_do_def expr_def idx)
  show "pulse_digital_output T index polarity verify duration s = (Inl IndexError, s)"
    if "polarity \<in> Edges"
    using that by (auto simp add: pulse_digital_output_def Edges_def then_do_def one)
qed

lemma inputs_outside:
  assumes "int (length (digital_inputs s)) \<le> index \<or> index < - int (length (digital_inputs s))"
  shows "get_digital_input T index s = (Inl IndexError, s)"
  using py_index_out_of_range [OF assms]
  by (simp add: get_digital_input_def then_do_def expr_def)

lemma counters_outside:
  assumes "int (length (counter_registers s)) \<le> index \<or> index < - int (length (counter_registers s))"
  shows "get_counter T index s = (Inl IndexError, s)"
    and "get_frequency T index s = (Inl IndexError, s)"
  using py_index_out_of_range [OF assms]
  by (simp_all add: get_counter_def get_frequency_def then_do_def expr_def)

lemma get_module_name_calls:
  "calls (snd (get_module_name T s)) = calls s @ [ReadInputRegisters (module_name_register s) 2]
   \<and> connected (snd (get_module_name T s)) = connected s"
  by (simp add: get_module_name_def step_simps Let_def split: prod.splits sum.splits)

lemma get_module_name_run:
  assumes "tp_read_input_registers T (module_name_register s) 2 (client s)
             = (Inr (ReadRegistersResponse [low, high]), c')"
  shows "get_module_name T s
           = (Inr ((if low = 0 then [] else hex_digits (unat low))
                   @ (if high = 0 then [] else hex_digits (unat high))),
              s\<lparr>name := (if low = 0 then [] else hex_digits (unat low))
                          @ (if high = 0 then [] else hex_digits (unat high)),
                client := c',
                calls := calls s @ [ReadInputRegisters (module_name_register s) 2]\<rparr>)"
  using assms
  by (simp add: get_module_name_def step_simps hex_of_register Let_def)

section \<open>Identification\<close>

text \<open>
  C8. \<open>get_module_name\<close> (the identification) makes one read of two registers at the
  module-name address and returns, and stores in \<open>name\<close>, the text of the low register
  followed by the text of the high register. The text of a register that is zero is
  empty; the text of any other register is a string of lowercase hexadecimal digits whose
  value is the register. Low 0x41 and high 0x42 give 4142; low 0 and high 0x5A give 5a.
\<close>

theorem identify_renders_registers:
  assumes "tp_read_input_registers T (module_name_register s) 2 (client s)
             = (Inr (ReadRegistersResponse [low, high]), c')"
  shows "\<exists>lo hi.
           get_module_name T s
             = (Inr (lo @ hi),
                s\<lparr>name := lo @ hi, client := c',
                  calls := calls s @ [ReadInputRegisters (module_name_register s) 2]\<rparr>)
         \<and> (if low = 0 then lo = [] else is_lower_hex lo \<and> hex_value lo = unat low)
         \<and> (if high = 0 then hi = [] else is_lower_hex hi \<and> hex_value hi = unat high)
         \<and> (low = 0x41 \<and> high = 0x42 \<longrightarrow> lo @ hi = ''4142'')
         \<and> (low = 0 \<and> high = 0x5A \<longrightarrow> lo @ hi = ''5a'')"
proof -
  define lo where "lo = (if low = 0 then [] else hex_digits (unat low))"
  define hi where "hi = (if high = 0 then [] else hex_digits (unat high))"
  have run: "get_module_name T s
             = (Inr (lo @ hi),
                s\<lparr>name := lo @ hi, client := c',
                  calls := calls s @ [ReadInputRegisters (module_name_register s) 2]\<rparr>)"
    using assms
    by (simp add: get_module_name_def step_simps hex_of_register lo_def hi_def Let_def)
  have low: "if low = 0 then lo = [] else is_lower_hex lo \<and> hex_value lo = unat low"
    by (simp add: lo_def is_lower_hex_hex_digits hex_value_hex_digits)
  have high: "if high = 0 then hi = [] else is_lower_hex hi \<and> hex_value hi = unat high"
    by (simp add: hi_def is_lower_hex_hex_digits hex_value_hex_digits)
  have ex1: "low = 0x41 \<and> high = 0x42 \<longrightarrow> lo @ hi = ''4142''"
    by (simp add: lo_def hi_def hex_digits_examples)
  have ex2: "low = 0 \<and> high = 0x5A \<longrightarrow> lo @ hi = ''5a''"
    by (simp add: lo_def hi_def hex_digits_examples)
  from run low high ex1 ex2 show ?thesis by blast
qed

theorem identify_renders_registers_witness:
  "fst (get_module_name sim (module_6052 ((\<lambda>_. 0)(210 := 0x41, 211 := 0x42)))) = Inr ''4142''
   \<and> name (snd (get_module_name sim (module_6052 ((\<lambda>_. 0)(210 := 0x41, 211 := 0x42))))) = ''4142''
   \<and> calls (snd (get_module_name sim (module_6052 ((\<lambda>_. 0)(210 := 0x41, 211 := 0x42)))))
       = [ReadInputRegisters 210 2]
   \<and> fst (get_module_name sim (module_6052 ((\<lambda>_. 0)(211 := 0x5A)))) = Inr ''5a''"
proof -
  let ?s = "module_6052 ((\<lambda>_. 0)(210 := 0x41, 211 := 0x42))"
  let ?t = "module_6052 ((\<lambda>_. 0)(211 := 0x5A))"
  have base: "module_name_register ?s = 210" "calls ?s = []" "module_name_register ?t = 210"
    by (simp_all add: sim_simps model_simps)
  have read_s: "tp_read_input_registers sim (module_name_register ?s) 2 (client ?s)
                  = (Inr (ReadRegistersResponse [0x41, 0x42]), client ?s)"
    by (simp add: sim_simps model_simps numeral_2_eq_2)
  have read_t: "tp_read_input_registers sim (module_name_register ?t) 2 (client ?t)
                  = (Inr (ReadRegistersResponse [0, 0x5A]), client ?t)"
    by (simp add: sim_simps model_simps numeral_2_eq_2)
  show ?thesis
    using identify_renders_registers [OF read_s] identify_renders_registers [OF read_t]
    by (auto simp add: base)
qed

section \<open>Counters and frequency\<close>

text \<open>
  C9. For a valid counter index, \<open>get_counter\<close> makes one read of two registers at the
  base address of the table entry and returns \<open>high * 65536 + low\<close>, which lies in the
  unsigned 32-bit range.
\<close>

theorem get_counter_composition:
  assumes "0 \<le> index" and "index < int (length (counter_registers s))"
    and "tp_read_input_registers T (counter_registers s ! nat index) 2 (client s)
           = (Inr (ReadRegistersResponse [low, high]), c')"
  shows "get_counter T index s
           = (Inr (uint high * 65536 + uint low),
              s\<lparr>client := c',
                calls := calls s @ [ReadInputRegisters (counter_registers s ! nat index) 2]\<rparr>)
         \<and> 0 \<le> uint high * 65536 + uint low \<and> uint high * 65536 + uint low < 2 ^ 32"
proof -
  have "uint high \<le> 65535" "uint low \<le> 65535"
    using uint_lt2p [of high] uint_lt2p [of low] by simp_all
  moreover have "0 \<le> uint high" "0 \<le> uint low"
    by simp_all
  ultimately have range: "0 \<le> uint high * 65536 + uint low \<and> uint high * 65536 + uint low < 2 ^ 32"
    by simp
  have "get_counter T index s
           = (Inr (uint high * 65536 + uint low),
              s\<lparr>client := c',
                calls := calls s @ [ReadInputRegisters (counter_registers s ! nat index) 2]\<rparr>)"
    using assms by (simp add: get_counter_def step_simps py_index_valid)
  with range show ?thesis by simp
qed

text \<open>On the simulated module with low = 5 and high = 2 the count is 131077.\<close>

theorem get_counter_composition_witness:
  "(0::int) \<le> 0
   \<and> 0 < int (length (counter_registers (module_6052 ((\<lambda>_. 0)(0 := 5, 1 := 2)))))
   \<and> fst (get_counter sim 0 (module_6052 ((\<lambda>_. 0)(0 := 5, 1 := 2)))) = Inr 131077
   \<and> calls (snd (get_counter sim 0 (module_6052 ((\<lambda>_. 0)(0 := 5, 1 := 2)))))
       = [ReadInputRegisters 0 2]"
proof -
  let ?s = "module_6052 ((\<lambda>_. 0)(0 := 5, 1 := 2))"
  have valid: "(0::int) \<le> 0" "0 < int (length (counter_registers ?s))"
    by (simp_all add: sim_simps model_simps)
  have base: "counter_registers ?s ! 0 = 0" and history: "calls ?s = []"
    by (simp_all add: sim_simps model_simps)
  have read: "tp_read_input_registers sim (counter_registers ?s ! nat 0) 2 (client ?s)
                = (Inr (ReadRegistersResponse [5, 2]), client ?s)"
    by (simp add: sim_simps model_simps numeral_2_eq_2)
  show ?thesis
    using valid get_counter_composition [OF valid read] by (simp add: base history)
qed

text \<open>
  C2. \<open>get_frequency\<close> never reaches a quotient: the name \<open>low\<close> holds the list of
  registers, and dividing a list raises TypeError. On the simulated module whose register
  0 reads 123, the read is made and the call raises.
\<close>

theorem get_frequency_type_error:
  "fst (get_frequency sim 0 (module_6052 ((\<lambda>_. 0)(0 := 123)))) = Inl TypeError
   \<and> calls (snd (get_frequency sim 0 (module_6052 ((\<lambda>_. 0)(0 := 123)))))
       = [ReadInputRegisters 0 1]"
  by (simp add: get_frequency_def step_simps py_index_def model_simps sim_simps)

lemma get_frequency_raises: "fst (get_frequency T index s) \<noteq> Inr x"
  by (simp add: get_frequency_def step_simps split: prod.splits sum.splits)

section \<open>Digital inputs\<close>

text \<open>
  C4. \<open>get_digital_input\<close> reads the discrete input at the address of the table entry,
  without any write or read-back, and returns the response object itself where
  \<open>get_digital_output\<close> returns \<open>.bits[0]\<close>: on a LOW input the result is not False.
\<close>

theorem get_digital_input_returns_response:
  "fst (get_digital_input sim 0 (module_6052 (\<lambda>_. 0)))
     = Inr (PyBitsResponse (ReadBitsResponse [False, False, False, False, False, False, False, False]))
   \<and> fst (get_digital_input sim 0 (module_6052 (\<lambda>_. 0))) \<noteq> Inr (PyBool False)
   \<and> calls (snd (get_digital_input sim 0 (module_6052 (\<lambda>_. 0)))) = [ReadDiscreteInputs 0]"
  by (simp add: get_digital_input_def step_simps py_index_def model_simps sim_simps numeral_eq_Suc)

lemma get_digital_input_value:
  "get_digital_input T index s = (Inr v, s') \<Longrightarrow> \<exists>r. v = PyBitsResponse r"
  by (auto simp add: get_digital_input_def step_simps split: prod.splits sum.splits)

section \<open>Verified writes and the pulse sequence\<close>

text \<open>
  C6. When the table entry for the index is \<open>a\<close>, a verified \<open>set_digital_output\<close>
  whose write is acknowledged issues the write of coil \<open>a\<close> and then one read of coil
  \<open>a\<close>, and raises AssertionError (the verification mismatch) exactly when the bit read
  back differs from the state; nothing is retried. In \<open>pulse_digital_output\<close> the force
  steps are \<open>set_digital_output\<close> calls with the given verify flag, the first forced
  state being LOW for RISING and HIGH for FALLING; a step that raises ends the pulse with
  that error and with the state that step left: no later step runs and nothing is undone
  (the third step is reached when the hold between the second and the third returns).
\<close>

theorem verification_mismatch_aborts:
  assumes "py_index (digital_outputs s) index = Inr a"
    and "(polarity = RISING \<and> first = False) \<or> (polarity = FALLING \<and> first = True)"
  shows "(\<forall>c1 c2 b bs.
            tp_write_coil T a state (client s) = (Inr (), c1) \<longrightarrow>
            tp_read_coils T a c1 = (Inr (ReadBitsResponse (b # bs)), c2) \<longrightarrow>
            set_digital_output T index state True s
              = ((if b = state then Inr () else Inl AssertionError),
                 s\<lparr>client := c2, calls := calls s @ [WriteCoil a state, ReadCoils a]\<rparr>))
       \<and> (\<forall>e s1.
            set_digital_output T index first verify s = (Inl e, s1) \<longrightarrow>
            pulse_digital_output T index polarity verify duration s = (Inl e, s1))
       \<and> (\<forall>e s1 s2.
            set_digital_output T index first verify s = (Inr (), s1) \<longrightarrow>
            set_digital_output T index (\<not> first) verify s1 = (Inl e, s2) \<longrightarrow>
            pulse_digital_output T index polarity verify duration s = (Inl e, s2))
       \<and> (\<forall>e s1 s2 s3.
            set_digital_output T index first verify s = (Inr (), s1) \<longrightarrow>
            set_digital_output T index (\<not> first) verify s1 = (Inr (), s2) \<longrightarrow>
            time_sleep duration = None \<longrightarrow>
            set_digital_output T index first verify (s2\<lparr>calls := calls s2 @ [Sleep duration]\<rparr>) = (Inl e, s3) \<longrightarrow>
            pulse_digital_output T index polarity verify duration s = (Inl e, s3))"
proof -
  have single: "\<forall>c1 c2 b bs.
            tp_write_coil T a state (client s) = (Inr (), c1) \<longrightarrow>
            tp_read_coils T a c1 = (Inr (ReadBitsResponse (b # bs)), c2) \<longrightarrow>
            set_digital_output T index state True s
              = ((if b = state then Inr () else Inl AssertionError),
                 s\<lparr>client := c2, calls := calls s @ [WriteCoil a state, ReadCoils a]\<rparr>)"
    using set_digital_output_verified [OF assms(1)] by blast
  have at_first: "\<forall>e s1.
            set_digital_output T index first verify s = (Inl e, s1) \<longrightarrow>
            pulse_digital_output T index polarity verify duration s = (Inl e, s1)"
    unfolding pulse_unfold [OF assms(2)] by (simp add: then_do_def)
  have at_second: "\<forall>e s1 s2.
            set_digital_output T index first verify s = (Inr (), s1) \<longrightarrow>
            set_digital_output T index (\<not> first) verify s1 = (Inl e, s2) \<longrightarrow>
            pulse_digital_output T index polarity verify duration s = (Inl e, s2)"
    unfolding pulse_unfold [OF assms(2)] by (simp add: then_do_def)
  have at_third: "\<forall>e s1 s2 s3.
            set_digital_output T index first verify s = (Inr (), s1) \<longrightarrow>
            set_digital_output T index (\<not> first) verify s1 = (Inr (), s2) \<longrightarrow>
            time_sleep duration = None \<longrightarrow>
            set_digital_output T index first verify (s2\<lparr>calls := calls s2 @ [Sleep duration]\<rparr>) = (Inl e, s3) \<longrightarrow>
            pulse_digital_output T index polarity verify duration s = (Inl e, s3)"
    unfolding pulse_unfold [OF assms(2)] by (simp add: then_do_def sleep_def)
  from single at_first at_second at_third show ?thesis by blast
qed

text \<open>On a module whose outputs are stuck LOW, forcing HIGH with verification raises after
  the write and the read-back, and a RISING pulse stops at its second step.\<close>

theorem verification_mismatch_aborts_witness:
  "py_index (digital_outputs (ADAM6052 ''10.0.0.1'' ((bench (\<lambda>_. 0))\<lparr>stuck := True\<rparr>))) 0 = Inr 16
   \<and> set_digital_output sim 0 True True (ADAM6052 ''10.0.0.1'' ((bench (\<lambda>_. 0))\<lparr>stuck := True\<rparr>))
       = (Inl AssertionError,
          (ADAM6052 ''10.0.0.1'' ((bench (\<lambda>_. 0))\<lparr>stuck := True\<rparr>))
            \<lparr>calls := [WriteCoil 16 True, ReadCoils 16]\<rparr>)
   \<and> fst (pulse_digital_output sim 0 RISING True 1 (ADAM6052 ''10.0.0.1'' ((bench (\<lambda>_. 0))\<lparr>stuck := True\<rparr>)))
       = Inl AssertionError
   \<and> calls (snd (pulse_digital_output sim 0 RISING True 1 (ADAM6052 ''10.0.0.1'' ((bench (\<lambda>_. 0))\<lparr>stuck := True\<rparr>))))
       = [WriteCoil 16 False, ReadCoils 16, WriteCoil 16 True, ReadCoils 16]"
proof -
  let ?d = "(bench (\<lambda>_. 0))\<lparr>stuck := True\<rparr>"
  let ?s = "ADAM6052 ''10.0.0.1'' ?d"
  let ?s1 = "?s\<lparr>calls := [WriteCoil 16 False, ReadCoils 16]\<rparr>"
  let ?s2 = "?s\<lparr>calls := [WriteCoil 16 False, ReadCoils 16, WriteCoil 16 True, ReadCoils 16]\<rparr>"
  have idx: "py_index (digital_outputs ?s) 0 = Inr 16"
    by (simp add: py_index_def model_simps)
  have edge: "(RISING = RISING \<and> False = False) \<or> (RISING = FALLING \<and> False = True)"
    by simp
  have "client ?s = ?d" and history: "calls ?s = []"
    by (simp_all add: model_simps)
  then have wrote: "tp_write_coil sim 16 True (client ?s) = (Inr (), ?d)"
    and readback: "tp_read_coils sim 16 ?d = (Inr (ReadBitsResponse (False # replicate 7 False)), ?d)"
    by (simp_all add: sim_simps)
  have low: "set_digital_output sim 0 False True ?s = (Inr (), ?s1)"
    by (simp add: set_digital_output_def get_digital_output_def step_simps py_index_def model_simps sim_simps)
  have high: "set_digital_output sim 0 (\<not> False) True ?s1 = (Inl AssertionError, ?s2)"
    by (simp add: set_digital_output_def get_digital_output_def step_simps py_index_def model_simps sim_simps)
  note facts = verification_mismatch_aborts [OF idx edge, of sim True True 1]
  have a: "set_digital_output sim 0 True True ?s
             = (Inl AssertionError, ?s\<lparr>client := ?d, calls := calls ?s @ [WriteCoil 16 True, ReadCoils 16]\<rparr>)"
    using facts [THEN conjunct1, rule_format, OF wrote readback] by simp
  have b: "pulse_digital_output sim 0 RISING True 1 ?s = (Inl AssertionError, ?s2)"
    using facts low high by blast
  show ?thesis
    using idx a b by (simp add: history model_simps)
qed




text \<open>
  C1. A duration that is not positive is not rejected before the output is touched: the
  duration is not looked at before the hold. A RISING pulse of duration 0 on the
  simulated module returns normally after all three coil writes.
\<close>

theorem pulse_zero_duration_counterexample:
  "\<not> (0::real) < 0
   \<and> fst (pulse_digital_output sim 0 RISING False 0 (module_6052 (\<lambda>_. 0))) = Inr ()
   \<and> calls (snd (pulse_digital_output sim 0 RISING False 0 (module_6052 (\<lambda>_. 0))))
       = [WriteCoil 16 False, WriteCoil 16 True, Sleep 0, WriteCoil 16 False]"
  by (simp add: run_simps)

text \<open>
  C1, amended. The duration is not checked before the output is touched. When the first
  two force steps succeed, a negative duration fails at the hold, with the state the
  second force step left (the third force step is not made): the error is ValueError for
  a duration down to -9223372036 s, and ValueError or OverflowError below that. A
  duration of 0 goes on to the third force step after a hold of length 0.
\<close>

theorem pulse_duration_not_checked_first:
  assumes "(polarity = RISING \<and> first = False) \<or> (polarity = FALLING \<and> first = True)"
    and "set_digital_output T index first verify s = (Inr (), s1)"
    and "set_digital_output T index (\<not> first) verify s1 = (Inr (), s2)"
  shows "(duration < 0 \<longrightarrow>
            pulse_digital_output T index polarity verify duration s = (Inl ValueError, s2)
          \<or> pulse_digital_output T index polarity verify duration s = (Inl OverflowError, s2))
       \<and> (- 9223372036 \<le> duration \<and> duration < 0 \<longrightarrow>
            pulse_digital_output T index polarity verify duration s = (Inl ValueError, s2))
       \<and> (duration = 0 \<longrightarrow>
            pulse_digital_output T index polarity verify duration s
              = set_digital_output T index first verify (s2\<lparr>calls := calls s2 @ [Sleep 0]\<rparr>))"
proof -
  have run: "pulse_digital_output T index polarity verify duration s
               = then_do (sleep duration) (\<lambda>_. set_digital_output T index first verify) s2"
    unfolding pulse_unfold [OF assms(1)]
    by (simp add: then_do_def assms(2) assms(3))
  have negative: "duration < 0 \<longrightarrow>
            pulse_digital_output T index polarity verify duration s = (Inl ValueError, s2)
          \<or> pulse_digital_output T index polarity verify duration s = (Inl OverflowError, s2)"
    using time_sleep_negative [of duration]
    by (auto simp add: run then_do_def sleep_def)
  have in_range: "- 9223372036 \<le> duration \<and> duration < 0 \<longrightarrow>
            pulse_digital_output T index polarity verify duration s = (Inl ValueError, s2)"
    using time_sleep_negative_range [of duration]
    by (auto simp add: run then_do_def sleep_def)
  have zero: "duration = 0 \<longrightarrow>
            pulse_digital_output T index polarity verify duration s
              = set_digital_output T index first verify (s2\<lparr>calls := calls s2 @ [Sleep 0]\<rparr>)"
  proof (intro impI)
    assume no_hold: "duration = 0"
    then have "time_sleep duration = None"
      by (simp add: time_sleep_accepts)
    then have "sleep duration s2 = (Inr (), s2\<lparr>calls := calls s2 @ [Sleep duration]\<rparr>)"
      by (rule sleep_returns)
    then have "pulse_digital_output T index polarity verify duration s
                 = set_digital_output T index first verify (s2\<lparr>calls := calls s2 @ [Sleep duration]\<rparr>)"
      by (simp add: run then_do_def)
    then show "pulse_digital_output T index polarity verify duration s
                 = set_digital_output T index first verify (s2\<lparr>calls := calls s2 @ [Sleep 0]\<rparr>)"
      using no_hold by simp
  qed
  from negative in_range zero show ?thesis
    by (intro conjI)
qed

theorem pulse_duration_not_checked_first_witness:
  "fst (pulse_digital_output sim 0 RISING False (- 1) (module_6052 (\<lambda>_. 0))) = Inl ValueError
   \<and> calls (snd (pulse_digital_output sim 0 RISING False (- 1) (module_6052 (\<lambda>_. 0))))
       = [WriteCoil 16 False, WriteCoil 16 True]
   \<and> coils (client (snd (pulse_digital_output sim 0 RISING False (- 1) (module_6052 (\<lambda>_. 0))))) 16 = True"
proof -
  let ?s = "module_6052 (\<lambda>_. 0)"
  let ?s1 = "snd (set_digital_output sim 0 False False ?s)"
  let ?s2 = "snd (set_digital_output sim 0 (\<not> False) False ?s1)"
  have edge: "(RISING = RISING \<and> False = False) \<or> (RISING = FALLING \<and> False = True)"
    by simp
  have one: "set_digital_output sim 0 False False ?s = (Inr (), ?s1)"
    by (rule pair_of_fst) (simp add: run_simps)
  have two: "set_digital_output sim 0 (\<not> False) False ?s1 = (Inr (), ?s2)"
    by (rule pair_of_fst) (simp add: run_simps)
  have "pulse_digital_output sim 0 RISING False (- 1) ?s = (Inl ValueError, ?s2)"
    using pulse_duration_not_checked_first [OF edge one two, of "- 1"] by simp
  moreover have "calls ?s2 = [WriteCoil 16 False, WriteCoil 16 True]"
    and "coils (client ?s2) 16 = True"
    by (simp_all add: run_simps)
  ultimately show ?thesis by simp
qed


text \<open>
  C10. A polarity that is neither RISING nor FALLING fails the assertion at the head of
  \<open>pulse_digital_output\<close>: the state, and with it the history of calls, is unchanged.
\<close>

theorem pulse_rejects_unknown_polarity:
  "polarity \<noteq> RISING \<Longrightarrow> polarity \<noteq> FALLING \<Longrightarrow>
   pulse_digital_output T index polarity verify duration s = (Inl AssertionError, s)"
  by (simp add: pulse_digital_output_def Edges_def raise_def)

theorem pulse_rejects_unknown_polarity_witness:
  "(3::int) \<noteq> RISING \<and> 3 \<noteq> FALLING
   \<and> pulse_digital_output sim 0 3 True 1 (module_6052 (\<lambda>_. 0))
       = (Inl AssertionError, module_6052 (\<lambda>_. 0))"
proof -
  have other: "(3::int) \<noteq> RISING" "(3::int) \<noteq> FALLING"
    by (simp_all add: RISING_def FALLING_def)
  show ?thesis
    using other pulse_rejects_unknown_polarity [OF other] by simp
qed

section \<open>Index lookup\<close>

text \<open>
  C3. A negative index is not rejected: the tables are Python lists, and index -1 of the
  ADAM-6052 output table reads the coil of the last output, 23, with no error.
\<close>

theorem negative_index_counterexample:
  "\<not> (0 \<le> (- 1 :: int))
   \<and> fst (get_digital_output sim (- 1) (module_6052 (\<lambda>_. 0))) = Inr False
   \<and> calls (snd (get_digital_output sim (- 1) (module_6052 (\<lambda>_. 0)))) = [ReadCoils 23]
   \<and> digital_outputs (module_6052 (\<lambda>_. 0)) ! 7 = 23"
  by (simp add: run_simps)

text \<open>
  C3, amended. In each of the six operations that take an index, an index with
  \<open>index >= len(table)\<close> or \<open>index < -len(table)\<close> raises IndexError (the out-of-range
  error) with the state unchanged, so before any call to the client (for the pulse, when
  the polarity is RISING or FALLING); an index with \<open>-len(table) <= index < 0\<close> is not
  rejected and behaves as the index \<open>len(table) + index\<close>; an address that a lookup
  yields is always an element of the table.
\<close>

theorem index_outside_table_raises:
  "(int (length (digital_outputs s)) \<le> index \<or> index < - int (length (digital_outputs s)) \<longrightarrow>
      set_digital_output T index state verify s = (Inl IndexError, s)
    \<and> get_digital_output T index s = (Inl IndexError, s)
    \<and> (polarity \<in> Edges \<longrightarrow>
         pulse_digital_output T index polarity verify duration s = (Inl IndexError, s)))
 \<and> (int (length (digital_inputs s)) \<le> index \<or> index < - int (length (digital_inputs s)) \<longrightarrow>
      get_digital_input T index s = (Inl IndexError, s))
 \<and> (int (length (counter_registers s)) \<le> index \<or> index < - int (length (counter_registers s)) \<longrightarrow>
      get_counter T index s = (Inl IndexError, s)
    \<and> get_frequency T index s = (Inl IndexError, s))
 \<and> (- int (length (digital_outputs s)) \<le> index \<and> index < 0 \<longrightarrow>
      set_digital_output T index state verify s
        = set_digital_output T (int (length (digital_outputs s)) + index) state verify s
    \<and> get_digital_output T index s
        = get_digital_output T (int (length (digital_outputs s)) + index) s
    \<and> pulse_digital_output T index polarity verify duration s
        = pulse_digital_output T (int (length (digital_outputs s)) + index) polarity verify duration s)
 \<and> (- int (length (digital_inputs s)) \<le> index \<and> index < 0 \<longrightarrow>
      get_digital_input T index s
        = get_digital_input T (int (length (digital_inputs s)) + index) s)
 \<and> (- int (length (counter_registers s)) \<le> index \<and> index < 0 \<longrightarrow>
      get_counter T index s = get_counter T (int (length (counter_registers s)) + index) s
    \<and> get_frequency T index s = get_frequency T (int (length (counter_registers s)) + index) s)
 \<and> (\<forall>table address. py_index table index = Inr address \<longrightarrow> address \<in> set (table :: int list))"
proof -
  have a: "int (length (digital_outputs s)) \<le> index \<or> index < - int (length (digital_outputs s)) \<longrightarrow>
      set_digital_output T index state verify s = (Inl IndexError, s)
    \<and> get_digital_output T index s = (Inl IndexError, s)
    \<and> (polarity \<in> Edges \<longrightarrow>
         pulse_digital_output T index polarity verify duration s = (Inl IndexError, s))"
    using outputs_outside by blast
  have b: "int (length (digital_inputs s)) \<le> index \<or> index < - int (length (digital_inputs s)) \<longrightarrow>
      get_digital_input T index s = (Inl IndexError, s)"
    using inputs_outside by blast
  have c: "int (length (counter_registers s)) \<le> index \<or> index < - int (length (counter_registers s)) \<longrightarrow>
      get_counter T index s = (Inl IndexError, s)
    \<and> get_frequency T index s = (Inl IndexError, s)"
    using counters_outside by blast
  have d: "- int (length (digital_outputs s)) \<le> index \<and> index < 0 \<longrightarrow>
      set_digital_output T index state verify s
        = set_digital_output T (int (length (digital_outputs s)) + index) state verify s
    \<and> get_digital_output T index s
        = get_digital_output T (int (length (digital_outputs s)) + index) s
    \<and> pulse_digital_output T index polarity verify duration s
        = pulse_digital_output T (int (length (digital_outputs s)) + index) polarity verify duration s"
  proof (intro impI)
    assume "- int (length (digital_outputs s)) \<le> index \<and> index < 0"
    then have wrap: "py_index (digital_outputs s) index
                       = py_index (digital_outputs s) (int (length (digital_outputs s)) + index)"
      by (simp add: py_index_negative)
    show "set_digital_output T index state verify s
        = set_digital_output T (int (length (digital_outputs s)) + index) state verify s
    \<and> get_digital_output T index s
        = get_digital_output T (int (length (digital_outputs s)) + index) s
    \<and> pulse_digital_output T index polarity verify duration s
        = pulse_digital_output T (int (length (digital_outputs s)) + index) polarity verify duration s"
      using set_digital_output_same_entry [OF wrap] get_digital_output_same_entry [OF wrap]
        pulse_same_entry [OF wrap]
      by blast
  qed
  have e: "- int (length (digital_inputs s)) \<le> index \<and> index < 0 \<longrightarrow>
      get_digital_input T index s
        = get_digital_input T (int (length (digital_inputs s)) + index) s"
  proof (intro impI)
    assume "- int (length (digital_inputs s)) \<le> index \<and> index < 0"
    then have wrap: "py_index (digital_inputs s) index
                       = py_index (digital_inputs s) (int (length (digital_inputs s)) + index)"
      by (simp add: py_index_negative)
    show "get_digital_input T index s
        = get_digital_input T (int (length (digital_inputs s)) + index) s"
      by (rule get_digital_input_same_entry [OF wrap])
  qed
  have f: "- int (length (counter_registers s)) \<le> index \<and> index < 0 \<longrightarrow>
      get_counter T index s = get_counter T (int (length (counter_registers s)) + index) s
    \<and> get_frequency T index s = get_frequency T (int (length (counter_registers s)) + index) s"
  proof (intro impI)
    assume "- int (length (counter_registers s)) \<le> index \<and> index < 0"
    then have wrap: "py_index (counter_registers s) index
                       = py_index (counter_registers s) (int (length (counter_registers s)) + index)"
      by (simp add: py_index_negative)
    show "get_counter T index s = get_counter T (int (length (counter_registers s)) + index) s
    \<and> get_frequency T index s = get_frequency T (int (length (counter_registers s)) + index) s"
      using get_counter_same_entry [OF wrap] get_frequency_same_entry [OF wrap] by blast
  qed
  have g: "\<forall>table address. py_index table index = Inr address \<longrightarrow> address \<in> set (table :: int list)"
    by (intro allI impI) (rule py_index_in_table)
  from a b c d e f g show ?thesis
    by (intro conjI)
qed

theorem index_outside_table_raises_witness:
  "get_digital_output sim 8 (module_6052 (\<lambda>_. 0)) = (Inl IndexError, module_6052 (\<lambda>_. 0))
   \<and> set_digital_output sim 8 True True (module_6052 (\<lambda>_. 0)) = (Inl IndexError, module_6052 (\<lambda>_. 0))
   \<and> pulse_digital_output sim 8 RISING True 1 (module_6052 (\<lambda>_. 0))
        = (Inl IndexError, module_6052 (\<lambda>_. 0))
   \<and> get_digital_input sim 8 (module_6052 (\<lambda>_. 0)) = (Inl IndexError, module_6052 (\<lambda>_. 0))
   \<and> get_counter sim 8 (module_6052 (\<lambda>_. 0)) = (Inl IndexError, module_6052 (\<lambda>_. 0))
   \<and> get_frequency sim 8 (module_6052 (\<lambda>_. 0)) = (Inl IndexError, module_6052 (\<lambda>_. 0))
   \<and> calls (module_6052 (\<lambda>_. 0)) = []
   \<and> get_digital_output sim (- 1) (module_6052 (\<lambda>_. 0))
        = get_digital_output sim 7 (module_6052 (\<lambda>_. 0))
   \<and> get_digital_output sim (- 9) (module_6052 (\<lambda>_. 0)) = (Inl IndexError, module_6052 (\<lambda>_. 0))"
proof -
  let ?s = "module_6052 (\<lambda>_. 0)"
  have len: "int (length (digital_outputs ?s)) = 8" "int (length (digital_inputs ?s)) = 8"
    "int (length (counter_registers ?s)) = 8" and history: "calls ?s = []"
    and edge: "RISING \<in> Edges"
    by (simp_all add: sim_simps model_simps Edges_def)
  show ?thesis
    using index_outside_table_raises [of ?s 8 sim True True RISING 1]
      index_outside_table_raises [of ?s "- 1" sim True True RISING 1]
      index_outside_table_raises [of ?s "- 9" sim True True RISING 1]
    by (simp add: len history edge)
qed

section \<open>Connection\<close>

text \<open>
  C5. Where the transport is not opened the identification is not skipped:
  \<open>connect\<close> performs the identification read whatever the outcome of the client's
  \<open>connect\<close>. On a module that is not reachable the client answers False and the read
  is still requested.
\<close>

theorem connect_refused_counterexample:
  "fst (tp_connect sim (client (ADAM6052 ''10.0.0.1'' ((bench (\<lambda>_. 0))\<lparr>reachable := False\<rparr>))))
     = Inr False
   \<and> fst (connect sim (ADAM6052 ''10.0.0.1'' ((bench (\<lambda>_. 0))\<lparr>reachable := False\<rparr>)))
       = Inl ConnectionException
   \<and> calls (snd (connect sim (ADAM6052 ''10.0.0.1'' ((bench (\<lambda>_. 0))\<lparr>reachable := False\<rparr>))))
       = [Connect, ReadInputRegisters 210 2]"
  by (simp add: connect_def get_module_name_def step_simps model_simps sim_simps)

text \<open>
  C5, amended. \<open>connect\<close> calls the client's \<open>connect\<close> once; an exception of that
  call is passed on with nothing else done. Otherwise its outcome, True or False, is
  stored in \<open>connected\<close>, the identification read is made once, and the result is that
  outcome when the identification returns and the identification's exception when it
  raises. No call is repeated.
\<close>

theorem connect_then_identify:
  "(\<forall>e c1. tp_connect T (client s) = (Inl e, c1) \<longrightarrow>
      connect T s = (Inl e, s\<lparr>client := c1, calls := calls s @ [Connect]\<rparr>))
 \<and> (\<forall>outcome c1 s1.
      tp_connect T (client s) = (Inr outcome, c1) \<longrightarrow>
      s1 = s\<lparr>client := c1, calls := calls s @ [Connect], connected := outcome\<rparr> \<longrightarrow>
        (\<forall>n s2. get_module_name T s1 = (Inr n, s2) \<longrightarrow> connect T s = (Inr outcome, s2))
      \<and> (\<forall>e s2. get_module_name T s1 = (Inl e, s2) \<longrightarrow> connect T s = (Inl e, s2))
      \<and> connected (snd (connect T s)) = outcome
      \<and> calls (snd (connect T s))
          = calls s @ [Connect, ReadInputRegisters (module_name_register s) 2])"
proof -
  have refused: "\<forall>e c1. tp_connect T (client s) = (Inl e, c1) \<longrightarrow>
      connect T s = (Inl e, s\<lparr>client := c1, calls := calls s @ [Connect]\<rparr>)"
    by (simp add: connect_def then_do_def client_call_def)
  have answered: "(\<forall>n s2. get_module_name T s1 = (Inr n, s2) \<longrightarrow> connect T s = (Inr outcome, s2))
      \<and> (\<forall>e s2. get_module_name T s1 = (Inl e, s2) \<longrightarrow> connect T s = (Inl e, s2))
      \<and> connected (snd (connect T s)) = outcome
      \<and> calls (snd (connect T s))
          = calls s @ [Connect, ReadInputRegisters (module_name_register s) 2]"
    if c: "tp_connect T (client s) = (Inr outcome, c1)"
      and s1: "s1 = s\<lparr>client := c1, calls := calls s @ [Connect], connected := outcome\<rparr>"
    for outcome c1 s1
  proof -
    have unfold: "connect T s
        = then_do (get_module_name T) (\<lambda>_. expr (\<lambda>s. Inr (connected s))) s1"
      using c s1 by (simp add: connect_def then_do_def client_call_def)
    obtain r s2 where g: "get_module_name T s1 = (r, s2)"
      by (cases "get_module_name T s1")
    have kept: "connected s2 = outcome"
      and hist: "calls s2 = calls s @ [Connect, ReadInputRegisters (module_name_register s) 2]"
      using get_module_name_calls [of T s1] g s1 by simp_all
    show ?thesis
      using g kept hist unfolding unfold
      by (cases r) (simp_all add: then_do_def expr_def)
  qed
  from refused answered show ?thesis by blast
qed

theorem connect_then_identify_witness:
  "fst (connect sim (module_6052 ((\<lambda>_. 0)(210 := 0x41, 211 := 0x42)))) = Inr True
   \<and> connected (snd (connect sim (module_6052 ((\<lambda>_. 0)(210 := 0x41, 211 := 0x42))))) = True
   \<and> name (snd (connect sim (module_6052 ((\<lambda>_. 0)(210 := 0x41, 211 := 0x42))))) = ''4142''
   \<and> calls (snd (connect sim (module_6052 ((\<lambda>_. 0)(210 := 0x41, 211 := 0x42)))))
       = [Connect, ReadInputRegisters 210 2]"
proof -
  let ?s = "module_6052 ((\<lambda>_. 0)(210 := 0x41, 211 := 0x42))"
  let ?s1 = "?s\<lparr>client := client ?s, calls := calls ?s @ [Connect], connected := True\<rparr>"
  let ?s2 = "snd (get_module_name sim ?s1)"
  have opened: "tp_connect sim (client ?s) = (Inr True, client ?s)"
    by (simp add: sim_simps model_simps)
  have base: "calls ?s = []" "module_name_register ?s = 210"
    by (simp_all add: sim_simps model_simps)
  have answer: "tp_read_input_registers sim (module_name_register ?s1) 2 (client ?s1)
                  = (Inr (ReadRegistersResponse [0x41, 0x42]), client ?s)"
    by (simp add: sim_simps model_simps numeral_2_eq_2)
  have ident: "get_module_name sim ?s1 = (Inr ''4142'', ?s2)" and named: "name ?s2 = ''4142''"
    using get_module_name_run [OF answer] by (simp_all add: hex_digits_examples)
  note facts = connect_then_identify [of sim ?s, THEN conjunct2, rule_format, OF opened refl]
  have run: "connect sim ?s = (Inr True, ?s2)"
    using facts ident by blast
  have rest: "connected (snd (connect sim ?s)) = True"
    "calls (snd (connect sim ?s)) = calls ?s @ [Connect, ReadInputRegisters (module_name_register ?s) 2]"
    using facts by blast+
  show ?thesis
    using run rest named by (simp add: base)
qed

end
